theory Spec2Isabelle
  imports Main "HOL-Library.Word"
begin

section \<open>Data model of the favicon checker (types.ts, helper.ts)\<close>

type_synonym byte = "8 word"

text \<open>
  Failures that the code does not catch: a rejected fetch, a read error while the body
  stream is drained, a failure of the image decoder, and the \<open>TypeError\<close> of the
  platform's \<open>URL\<close> constructor. Each one leaves the function through \<open>Inl\<close>.
\<close>

datatype error = FetchFailed | StreamFailed | DecodeFailed | InvalidURL

text \<open>
  A \<open>ReadableStream\<close> of byte chunks, as its reader sees it: every \<open>read()\<close> yields
  the next chunk, the end of the stream (\<open>done\<close>), or rejects.
\<close>

datatype ReadableStream = Closed | Chunk "byte list" ReadableStream | Errored

record FetchResponse =
  status :: int
  contentType :: "string option"
  readableStream :: "ReadableStream option"

type_synonym Fetcher = "string \<Rightarrow> string option \<Rightarrow> error + FetchResponse"

text \<open>The two fields that \<open>checkIcon\<close> reads of the decoder's metadata; each may be undefined.\<close>

datatype Metadata = Metadata (meta_width: "int option") (meta_height: "int option")

record CheckIconOutput =
  content :: "string option"
  url :: "string option"
  width :: "int option"
  height :: "int option"

text \<open>
  The calls \<open>checkIcon\<close> makes on its \<open>CheckIconProcessor\<close>, one constructor for each
  of the eight callbacks, with the arguments of the call.
\<close>

datatype event =
    noHref
  | icon404
  | cannotGet int
  | downloadable
  | square int
  | notSquare int int
  | rightSize int
  | wrongSize int

text \<open>
  What one run of \<open>checkIcon\<close> does to the outside: the processor callbacks it invoked
  and the fetcher calls it made, both in the order of the calls.
\<close>

record trace =
  events :: "event list"
  fetchCalls :: "(string \<times> string option) list"

definition emit :: "event \<Rightarrow> trace \<Rightarrow> trace" where
  "emit e t = t\<lparr>events := events t @ [e]\<rparr>"

definition fetched :: "string \<Rightarrow> string option \<Rightarrow> trace \<Rightarrow> trace" where
  "fetched u m t = t\<lparr>fetchCalls := fetchCalls t @ [(u, m)]\<rparr>"

section \<open>Strings\<close>

fun startsWith :: "string \<Rightarrow> string \<Rightarrow> bool" where
  "startsWith s [] = True"
| "startsWith [] (p # ps) = False"
| "startsWith (c # cs) (p # ps) = (c = p \<and> startsWith cs ps)"

definition endsWith :: "string \<Rightarrow> string \<Rightarrow> bool" where
  "endsWith s p = startsWith (rev s) (rev p)"

text \<open>\<open>String.prototype.split\<close> with a one-character separator: never an empty array.\<close>

fun split :: "char \<Rightarrow> string \<Rightarrow> string list" where
  "split d [] = [[]]"
| "split d (c # cs) =
     (if c = d then [] # split d cs
      else (case split d cs of [] \<Rightarrow> [[c]] | w # ws \<Rightarrow> (c # w) # ws))"

text \<open>\<open>Array.prototype.pop\<close>: the last element, undefined on an empty array.\<close>

definition pop :: "'a list \<Rightarrow> 'a option" where
  "pop xs = (if xs = [] then None else Some (last xs))"

section \<open>pathToMimeType\<close>

definition pathToMimeType :: "string \<Rightarrow> string" where
  "pathToMimeType path =
     (let ext = pop (split CHR ''.'' path) in
      if ext = Some ''png'' then ''image/png''
      else if ext = Some ''svg'' then ''image/svg+xml''
      else if ext = Some ''ico'' then ''image/x-icon''
      else if ext = Some ''jpg'' \<or> ext = Some ''jpeg'' then ''image/jpeg''
      else ''application/octet-stream'')"

section \<open>readableStreamToBuffer\<close>

text \<open>
  The read loop: \<open>chunks\<close> is the array the loop pushes to. A chunk is a
  \<open>Uint8Array\<close>, an object, so the test \<open>if (value)\<close> holds for it even when it is empty.
\<close>

fun readLoop :: "ReadableStream \<Rightarrow> byte list list \<Rightarrow> error + byte list list" where
  "readLoop Closed chunks = Inr chunks"
| "readLoop (Chunk v rest) chunks = readLoop rest (chunks @ [v])"
| "readLoop Errored chunks = Inl StreamFailed"

text \<open>\<open>TypedArray.prototype.set(chunk, offset)\<close>, for a chunk that fits.\<close>

definition setAt :: "byte list \<Rightarrow> byte list \<Rightarrow> nat \<Rightarrow> byte list" where
  "setAt buf chunk offset = take offset buf @ chunk @ drop (offset + length chunk) buf"

fun copyChunks :: "byte list list \<Rightarrow> nat \<Rightarrow> byte list \<Rightarrow> byte list" where
  "copyChunks [] offset buf = buf"
| "copyChunks (chunk # rest) offset buf = copyChunks rest (offset + length chunk) (setAt buf chunk offset)"

definition readableStreamToBuffer :: "ReadableStream \<Rightarrow> error + byte list" where
  "readableStreamToBuffer s =
     (case readLoop s [] of
        Inl e \<Rightarrow> Inl e
      | Inr chunks \<Rightarrow>
          Inr (copyChunks chunks 0 (replicate (foldl (\<lambda>acc chunk. acc + length chunk) 0 chunks) 0)))"

section \<open>bufferToDataUrl\<close>

text \<open>
  \<open>Buffer.toString('base64')\<close> of the platform: RFC 4648 base64 with the standard
  alphabet and \<open>=\<close> padding.
\<close>

definition base64Alphabet :: string where
  "base64Alphabet = ''ABCDEFGHIJKLMNOPQRSTUVWXYZabcdefghijklmnopqrstuvwxyz0123456789+/''"

definition base64Digit :: "nat \<Rightarrow> char" where
  "base64Digit n = base64Alphabet ! (n mod 64)"

fun base64 :: "byte list \<Rightarrow> string" where
  "base64 (a # b # c # rest) =
     (let n = unat a * 65536 + unat b * 256 + unat c in
      base64Digit (n div 262144) # base64Digit (n div 4096) # base64Digit (n div 64)
        # base64Digit n # base64 rest)"
| "base64 [a, b] =
     (let n = unat a * 65536 + unat b * 256 in
      [base64Digit (n div 262144), base64Digit (n div 4096), base64Digit (n div 64), CHR ''=''])"
| "base64 [a] =
     (let n = unat a * 65536 in
      [base64Digit (n div 262144), base64Digit (n div 4096), CHR ''='', CHR ''=''])"
| "base64 [] = []"

definition bufferToDataUrl :: "byte list \<Rightarrow> string \<Rightarrow> string" where
  "bufferToDataUrl buffer mimeType = ''data:'' @ mimeType @ '';base64,'' @ base64 buffer"

section \<open>checkIcon\<close>

text \<open>
  JavaScript's \<open>a || b\<close> where \<open>a\<close> is a \<open>string | null\<close> and where it is a
  \<open>number | undefined\<close>: null, undefined, the empty string and 0 are falsy.
\<close>

definition orString :: "string option \<Rightarrow> string \<Rightarrow> string" where
  "orString a b = (case a of None \<Rightarrow> b | Some s \<Rightarrow> if s = [] then b else s)"

definition orNull :: "int option \<Rightarrow> int option" where
  "orNull a = (case a of None \<Rightarrow> None | Some n \<Rightarrow> if n = 0 then None else Some n)"

text \<open>The object returned by the last statement of \<open>checkIcon\<close>.\<close>

definition noContent :: "string \<Rightarrow> CheckIconOutput" where
  "noContent iconUrl = \<lparr>content = None, url = Some iconUrl, width = None, height = None\<rparr>"

text \<open>
  Lines 140 to 154 of helper.ts: the callbacks that depend on the decoded size. The
  tests \<open>meta.width && meta.height\<close> and \<open>if (expectedWidthHeight)\<close> are truthiness
  tests: they fail on undefined and on 0.
\<close>

definition sizeEvents :: "Metadata \<Rightarrow> int option \<Rightarrow> trace \<Rightarrow> trace" where
  "sizeEvents meta expectedWidthHeight t =
     (case (meta_width meta, meta_height meta) of
        (Some w, Some h) \<Rightarrow>
          if w \<noteq> 0 \<and> h \<noteq> 0 then
            (if w \<noteq> h then emit (notSquare w h) t
             else
               (let t1 = emit (square w) t in
                case expectedWidthHeight of
                  None \<Rightarrow> t1
                | Some e \<Rightarrow>
                    if e \<noteq> 0 then (if w = e then emit (rightSize w) t1 else emit (wrongSize w) t1)
                    else t1))
          else t
      | _ \<Rightarrow> t)"

text \<open>
  \<open>checkIcon\<close>. The processor is the recorder of \<open>event\<close>s; \<open>fetcher\<close> and the decoder
  \<open>metadata\<close> (\<open>sharp(buffer).metadata()\<close>) are the collaborators, each able to fail.
  The result pairs what the promise settles to (\<open>Inl\<close>: rejected; \<open>Inr None\<close>: null)
  with the trace of the run. \<open>!iconUrl\<close> holds for undefined and for the empty string.
\<close>

definition checkIcon ::
  "string option \<Rightarrow> Fetcher \<Rightarrow> (byte list \<Rightarrow> error + Metadata) \<Rightarrow> string option \<Rightarrow> int option
     \<Rightarrow> (error + CheckIconOutput option) \<times> trace" where
  "checkIcon iconUrl fetcher metadata mimeType expectedWidthHeight =
     (let t0 = \<lparr>events = [], fetchCalls = []\<rparr> in
      case iconUrl of
        None \<Rightarrow> (Inr None, emit noHref t0)
      | Some u \<Rightarrow>
          if u = [] then (Inr None, emit noHref t0)
          else
            (let t1 = fetched u mimeType t0 in
             case fetcher u mimeType of
               Inl e \<Rightarrow> (Inl e, t1)
             | Inr res \<Rightarrow>
                 if status res = 404 then (Inr (Some (noContent u)), emit icon404 t1)
                 else if status res \<ge> 300 then
                   (Inr (Some (noContent u)), emit (cannotGet (status res)) t1)
                 else
                   (case readableStream res of
                      None \<Rightarrow> (Inr (Some (noContent u)), t1)
                    | Some stream \<Rightarrow>
                        (let t2 = emit downloadable t1 in
                         case readableStreamToBuffer stream of
                           Inl e \<Rightarrow> (Inl e, t2)
                         | Inr rawContent \<Rightarrow>
                             (case metadata rawContent of
                                Inl e \<Rightarrow> (Inl e, t2)
                              | Inr meta \<Rightarrow>
                                  (let contentType' =
                                         orString (contentType res) (pathToMimeType u);
                                       content' = bufferToDataUrl rawContent contentType'
                                   in (Inr (Some \<lparr>content = Some content', url = Some u,
                                                    width = orNull (meta_width meta),
                                                    height = orNull (meta_height meta)\<rparr>),
                                       sizeEvents meta expectedWidthHeight t2)))))))"

section \<open>mergeUrlAndPath\<close>

text \<open>
  The three properties that \<open>mergeUrlAndPath\<close> reads of the platform's \<open>URL\<close> object:
  \<open>protocol\<close> is the scheme with its colon, \<open>origin\<close> the scheme, host and port,
  \<open>href\<close> the serialised URL.
\<close>

record URL =
  protocol :: string
  origin :: string
  href :: string

text \<open>
  \<open>mergeUrlAndPath\<close>. The constructor \<open>new URL(baseUrl)\<close> is the parameter \<open>newURL\<close>;
  it answers \<open>None\<close> where the constructor throws its \<open>TypeError\<close> (invalid URL).
\<close>

definition mergeUrlAndPath :: "(string \<Rightarrow> URL option) \<Rightarrow> string \<Rightarrow> string \<Rightarrow> error + string" where
  "mergeUrlAndPath newURL baseUrl absoluteOrRelativePath =
     (if startsWith absoluteOrRelativePath ''http://''
         \<or> startsWith absoluteOrRelativePath ''https://''
      then Inr absoluteOrRelativePath
      else
        (case newURL baseUrl of
           None \<Rightarrow> Inl InvalidURL
         | Some url' \<Rightarrow>
             if startsWith absoluteOrRelativePath ''//'' then
               Inr (protocol url' @ absoluteOrRelativePath)
             else if startsWith absoluteOrRelativePath ''/'' then
               Inr (origin url' @ absoluteOrRelativePath)
             else
               Inr (href url' @ (if endsWith (href url') ''/'' then [] else ''/'')
                      @ absoluteOrRelativePath)))"

text \<open>
  A constructor for concrete runs. It covers the bases of the shape
  \<open>scheme://host\<close> and \<open>scheme://host/path\<close>, with the scheme \<open>http\<close> or \<open>https\<close> in
  any letter case, a host of non-empty labels of ASCII letters with dots between them, no
  port and no user, and a path, query and fragment of characters that the URL standard
  serialises unchanged, without \<open>.\<close> and \<open>..\<close> segments. On these the URL standard
  lower-cases the scheme and the host and gives an empty path the value \<open>/\<close>. Every
  other string is answered with \<open>None\<close>: for a string with no scheme, as the standard
  says; for the rest, because this function does not cover them. No theorem with a
  \<open>newURL\<close> parameter depends on it.
\<close>

definition toLower :: "char \<Rightarrow> char" where
  "toLower c =
     (case map_of (zip ''ABCDEFGHIJKLMNOPQRSTUVWXYZ'' ''abcdefghijklmnopqrstuvwxyz'') c of
        None \<Rightarrow> c
      | Some l \<Rightarrow> l)"

definition isAlnum :: "char \<Rightarrow> bool" where
  "isAlnum c =
     (c \<in> set ''ABCDEFGHIJKLMNOPQRSTUVWXYZabcdefghijklmnopqrstuvwxyz0123456789'')"

definition isAlpha :: "char \<Rightarrow> bool" where
  "isAlpha c = (c \<in> set ''ABCDEFGHIJKLMNOPQRSTUVWXYZabcdefghijklmnopqrstuvwxyz'')"

definition plainHost :: "string \<Rightarrow> bool" where
  "plainHost host =
     (list_all (\<lambda>c. isAlpha c \<or> c = CHR ''.'') host \<and> [] \<notin> set (split CHR ''.'' host))"

definition plainPathChar :: "char \<Rightarrow> bool" where
  "plainPathChar c = (isAlnum c \<or> c \<in> set ''/-_.~?=&#'')"

definition noDotSegments :: "string \<Rightarrow> bool" where
  "noDotSegments rest =
     (let path = takeWhile (\<lambda>c. c \<noteq> CHR ''?'' \<and> c \<noteq> CHR ''#'') rest in
      ''.'' \<notin> set (split CHR ''/'' path) \<and> ''..'' \<notin> set (split CHR ''/'' path))"

definition newURL_plain :: "string \<Rightarrow> URL option" where
  "newURL_plain s =
     (let scheme = map toLower (takeWhile (\<lambda>c. c \<noteq> CHR '':'') s);
          afterScheme = dropWhile (\<lambda>c. c \<noteq> CHR '':'') s;
          host = map toLower (takeWhile (\<lambda>c. c \<noteq> CHR ''/'') (drop 3 afterScheme));
          rest = dropWhile (\<lambda>c. c \<noteq> CHR ''/'') (drop 3 afterScheme)
      in
        if (scheme = ''http'' \<or> scheme = ''https'') \<and> startsWith afterScheme ''://''
           \<and> plainHost host
           \<and> list_all plainPathChar rest \<and> noDotSegments rest
        then Some \<lparr>protocol = scheme @ '':'',
                    origin = scheme @ ''://'' @ host,
                    href = scheme @ ''://'' @ host @ (if rest = [] then ''/'' else rest)\<rparr>
        else None)"

section \<open>parseSizesAttribute\<close>

definition isDigit :: "char \<Rightarrow> bool" where
  "isDigit c = (c \<in> set ''0123456789'')"

text \<open>
  The regular expression \<open>/(\d+)x(\d+)/\<close> tried at the start of \<open>s\<close>. The first
  group is greedy and an \<open>x\<close> has to follow it, so it is the whole run of digits at
  the start; the second group, greedy too, is the whole run of digits after the \<open>x\<close>.
  The result holds the two groups, \<open>match[1]\<close> and \<open>match[2]\<close>.
\<close>

definition matchHere :: "string \<Rightarrow> (string \<times> string) option" where
  "matchHere s =
     (let group1 = takeWhile isDigit s in
      if group1 = [] then None
      else
        (case dropWhile isDigit s of
           [] \<Rightarrow> None
         | c # afterX \<Rightarrow>
             if c \<noteq> CHR ''x'' then None
             else
               (let group2 = takeWhile isDigit afterX in
                if group2 = [] then None else Some (group1, group2))))"

text \<open>\<open>sizes.match(/(\d+)x(\d+)/)\<close>: the match at the leftmost position that has one.\<close>

fun regexMatch :: "string \<Rightarrow> (string \<times> string) option" where
  "regexMatch [] = None"
| "regexMatch (c # cs) =
     (case matchHere (c # cs) of Some groups \<Rightarrow> Some groups | None \<Rightarrow> regexMatch cs)"

text \<open>
  The JavaScript numbers that \<open>parseInt\<close> can give for a run of decimal digits: a
  double whose value is an integer, or \<open>Infinity\<close>.
\<close>

datatype number = Number int | Infinity

definition digitValue :: "char \<Rightarrow> int" where
  "digitValue c = int (of_char c) - 48"

text \<open>The integer that a string of decimal digits denotes.\<close>

definition decimal :: "string \<Rightarrow> int" where
  "decimal ds = foldl (\<lambda>n c. 10 * n + digitValue c) 0 ds"

text \<open>
  The double for a non-negative integer. A double has a significand of 53 bits:
  \<open>excessBits n\<close> is the number of low bits of \<open>n\<close> that do not fit, and they are rounded
  away to the nearest, a tie to the even significand. A result of \<open>2^1024\<close> or more is
  beyond the doubles and becomes \<open>Infinity\<close>.
\<close>

function excessBits :: "int \<Rightarrow> nat" where
  "excessBits n = (if n < 2 ^ 53 then 0 else Suc (excessBits (n div 2)))"
  by pat_completeness auto
termination
  by (relation "measure nat") auto

declare excessBits.simps [simp del]

definition toDouble :: "int \<Rightarrow> number" where
  "toDouble n =
     (let k = excessBits n;
          q = n div 2 ^ k;
          r = n mod 2 ^ k;
          q' = (if 2 ^ k < 2 * r \<or> (2 * r = 2 ^ k \<and> odd q) then q + 1 else q)
      in if 2 ^ 1024 \<le> q' * 2 ^ k then Infinity else Number (q' * 2 ^ k))"

text \<open>
  \<open>parseInt\<close> on a string that starts with a decimal digit: the double for the integer
  that the leading run of digits denotes.
\<close>

definition parseInt :: "string \<Rightarrow> number" where
  "parseInt s = toDouble (decimal (takeWhile isDigit s))"

definition parseSizesAttribute :: "string option \<Rightarrow> number option" where
  "parseSizesAttribute sizes =
     (case sizes of
        None \<Rightarrow> None
      | Some s \<Rightarrow>
          if s = [] then None
          else
            (case regexMatch s of
               Some (group1, group2) \<Rightarrow> if group1 \<noteq> group2 then None else Some (parseInt group1)
             | None \<Rightarrow> None))"

text \<open>
  The words of the specification for the pattern: an occurrence of
  \<open><digits>x<digits>\<close> at position \<open>i\<close> of \<open>s\<close>, with the groups \<open>a\<close> and \<open>b\<close>, is
  a non-empty run of digits \<open>a\<close> that starts at \<open>i\<close>, an \<open>x\<close>, and a non-empty run of
  digits \<open>b\<close> with no further digit behind it.
\<close>

definition occursAt :: "string \<Rightarrow> nat \<Rightarrow> string \<Rightarrow> string \<Rightarrow> bool" where
  "occursAt s i a b =
     (a \<noteq> [] \<and> b \<noteq> [] \<and> list_all isDigit a \<and> list_all isDigit b
      \<and> startsWith (drop i s) (a @ ''x'' @ b)
      \<and> takeWhile isDigit (drop (i + length a + 1 + length b) s) = [])"

section \<open>Collaborators for concrete runs\<close>

text \<open>A fetcher that settles every request with the same response, and a decoder that
  reports the same metadata for every buffer.\<close>

definition respond :: "FetchResponse \<Rightarrow> Fetcher" where
  "respond res u m = Inr res"

definition decodeAs :: "Metadata \<Rightarrow> byte list \<Rightarrow> error + Metadata" where
  "decodeAs meta buf = Inr meta"

section \<open>The byte stream collector\<close>

text \<open>What a stream delivers before it closes or fails, and whether it fails.\<close>

fun streamChunks :: "ReadableStream \<Rightarrow> byte list list" where
  "streamChunks Closed = []"
| "streamChunks (Chunk v rest) = v # streamChunks rest"
| "streamChunks Errored = []"

fun streamFails :: "ReadableStream \<Rightarrow> bool" where
  "streamFails Closed = False"
| "streamFails (Chunk v rest) = streamFails rest"
| "streamFails Errored = True"

lemma readLoop_chunks:
  "readLoop s acc = (if streamFails s then Inl StreamFailed else Inr (acc @ streamChunks s))"
  by (induction s arbitrary: acc) auto

lemma total_length: "foldl (\<lambda>acc chunk. acc + length chunk) n chunks = n + length (concat chunks)"
  by (induction chunks arbitrary: n) auto

lemma copyChunks_concat:
  "offset + length (concat chunks) \<le> length buf \<Longrightarrow>
   copyChunks chunks offset buf
     = take offset buf @ concat chunks @ drop (offset + length (concat chunks)) buf"
proof (induction chunks arbitrary: offset buf)
  case Nil
  then show ?case by simp
next
  case (Cons chunk rest)
  let ?buf' = "setAt buf chunk offset"
  from Cons.prems have fits: "offset + length chunk \<le> length buf"
    by simp
  then have len: "length ?buf' = length buf"
    by (simp add: setAt_def)
  have pre: "take (offset + length chunk) ?buf' = take offset buf @ chunk"
    using fits by (simp add: setAt_def)
  have post: "drop (offset + length chunk + n) ?buf' = drop (offset + length chunk + n) buf" for n
    using fits by (simp add: setAt_def ac_simps)
  have "copyChunks rest (offset + length chunk) ?buf'
          = take (offset + length chunk) ?buf' @ concat rest
              @ drop (offset + length chunk + length (concat rest)) ?buf'"
    using Cons.prems len by (intro Cons.IH) simp
  then show ?case
    using post [of "length (concat rest)"] by (simp add: pre add.assoc)
qed

text \<open>
  \<open>readableStreamToBuffer\<close> fails exactly when a read fails; otherwise the buffer holds
  the chunks in the order of their arrival, and nothing else.
\<close>

lemma readableStreamToBuffer_concat:
  "readableStreamToBuffer s
     = (if streamFails s then Inl StreamFailed else Inr (concat (streamChunks s)))"
  by (simp add: readableStreamToBuffer_def readLoop_chunks total_length copyChunks_concat)

section \<open>The MIME type of an extension\<close>

text \<open>
  \<open>path.split('.').pop()\<close> is the text behind the last dot of the path, and the whole
  path when it has no dot; \<open>pathToMimeType\<close> looks that text up.
\<close>

lemma split_not_Nil: "split d s \<noteq> []"
  by (induction s) (auto split: list.splits)

lemma pop_split:
  "pop (split d s) = Some (rev (takeWhile (\<lambda>c. c \<noteq> d) (rev s)))"
proof -
  have "last (split d s) = rev (takeWhile (\<lambda>c. c \<noteq> d) (rev s))
        \<and> (length (split d s) = 1 \<longleftrightarrow> d \<notin> set s)"
  proof (induction s)
    case Nil
    then show ?case by simp
  next
    case (Cons c cs)
    show ?case
    proof (cases "c = d")
      case True
      with Cons show ?thesis
        by (simp add: split_not_Nil takeWhile_tail)
    next
      case False
      obtain w ws where sp: "split d cs = w # ws"
        using split_not_Nil [of d cs] by (cases "split d cs") auto
      show ?thesis
      proof (cases "d \<in> set cs")
        case True
        with Cons sp have "ws \<noteq> []" by auto
        with Cons sp False True show ?thesis
          by (auto simp: takeWhile_append1)
      next
        case False
        with Cons sp have ws: "ws = []" by auto
        have tw: "takeWhile (\<lambda>c. c \<noteq> d) (rev cs @ [c]) = rev cs @ [c]"
          "takeWhile (\<lambda>c. c \<noteq> d) (rev cs) = rev cs"
          using False \<open>c \<noteq> d\<close> by (auto simp: takeWhile_eq_all_conv)
        from Cons sp have "w = rev (takeWhile (\<lambda>c. c \<noteq> d) (rev cs))"
          by (simp add: ws)
        then show ?thesis
          using sp \<open>c \<noteq> d\<close> False by (simp add: tw ws)
      qed
    qed
  qed
  then show ?thesis
    by (simp add: pop_def split_not_Nil)
qed

lemma pathToMimeType_extension:
  "pathToMimeType path =
     (let ext = rev (takeWhile (\<lambda>c. c \<noteq> CHR ''.'') (rev path)) in
      if ext = ''png'' then ''image/png''
      else if ext = ''svg'' then ''image/svg+xml''
      else if ext = ''ico'' then ''image/x-icon''
      else if ext = ''jpg'' \<or> ext = ''jpeg'' then ''image/jpeg''
      else ''application/octet-stream'')"
  by (simp add: pathToMimeType_def pop_split Let_def)

section \<open>Properties of checkIcon\<close>

text \<open>
  The run of \<open>checkIcon\<close> on a non-empty URL whose fetch settles with a status below
  300 and a body that is read and decoded without failure.
\<close>

lemma checkIcon_decoded:
  assumes "iconUrl \<noteq> []"
    and "fetcher iconUrl mimeType = Inr res"
    and "status res \<noteq> 404" and "status res < 300"
    and "readableStream res = Some stream"
    and "readableStreamToBuffer stream = Inr rawContent"
    and "metadata rawContent = Inr meta"
  shows "checkIcon (Some iconUrl) fetcher metadata mimeType expectedWidthHeight
     = (Inr (Some \<lparr>content = Some (bufferToDataUrl rawContent
                                       (orString (contentType res) (pathToMimeType iconUrl))),
                    url = Some iconUrl,
                    width = orNull (meta_width meta), height = orNull (meta_height meta)\<rparr>),
        sizeEvents meta expectedWidthHeight
          \<lparr>events = [downloadable], fetchCalls = [(iconUrl, mimeType)]\<rparr>)"
  using assms by (simp add: checkIcon_def emit_def fetched_def)

lemma events_sizeEvents_square:
  "W \<noteq> 0 \<Longrightarrow>
   events (sizeEvents (Metadata (Some W) (Some W)) expectedWidthHeight t)
     = events t @ [square W]
         @ (case expectedWidthHeight of
              None \<Rightarrow> []
            | Some e \<Rightarrow> if e = 0 then [] else if e = W then [rightSize W] else [wrongSize W])"
  by (auto simp: sizeEvents_def emit_def split: option.splits)

lemma events_sizeEvents_notSquare:
  "w \<noteq> h \<Longrightarrow>
   events (sizeEvents (Metadata (Some w) (Some h)) expectedWidthHeight t)
     = events t @ (if w = 0 \<or> h = 0 then [] else [notSquare w h])"
  by (auto simp: sizeEvents_def emit_def)

text \<open>
  C1, as the code has it. On a fetch with a status below 300 (and so not 404) and a byte
  stream whose decoded width and height are both \<open>W\<close>, with \<open>W\<close> not 0, \<open>checkIcon\<close>
  calls \<open>downloadable\<close>, then \<open>square(W)\<close>, and then: nothing more when
  \<open>expectedWidthHeight\<close> is undefined or 0; \<open>rightSize(W)\<close> when it is \<open>W\<close>;
  \<open>wrongSize(W)\<close> when it is any other number. The comparison is equality of the two
  integers.
\<close>

theorem checkIcon_square:
  assumes "iconUrl \<noteq> []"
    and "fetcher iconUrl mimeType = Inr res"
    and "status res \<noteq> 404" and "status res < 300"
    and "readableStream res = Some stream"
    and "readableStreamToBuffer stream = Inr rawContent"
    and "metadata rawContent = Inr (Metadata (Some W) (Some W))"
    and "W \<noteq> 0"
  shows "events (snd (checkIcon (Some iconUrl) fetcher metadata mimeType expectedWidthHeight))
     = [downloadable, square W]
         @ (case expectedWidthHeight of
              None \<Rightarrow> []
            | Some e \<Rightarrow> if e = 0 then [] else if e = W then [rightSize W] else [wrongSize W])"
  using assms by (simp add: checkIcon_decoded events_sizeEvents_square)

theorem checkIcon_square_witness:
  "events (snd (checkIcon (Some ''a.png'')
       (respond \<lparr>status = 200, contentType = None, readableStream = Some (Chunk [1, 2] Closed)\<rparr>)
       (decodeAs (Metadata (Some 48) (Some 48))) None (Some 48)))
     = [downloadable, square 48, rightSize 48]
   \<and> events (snd (checkIcon (Some ''a.png'')
       (respond \<lparr>status = 200, contentType = None, readableStream = Some (Chunk [1, 2] Closed)\<rparr>)
       (decodeAs (Metadata (Some 48) (Some 48))) None (Some 180)))
     = [downloadable, square 48, wrongSize 48]"
  using
    checkIcon_square [of "''a.png''"
      "respond \<lparr>status = 200, contentType = None, readableStream = Some (Chunk [1, 2] Closed)\<rparr>"
      None "\<lparr>status = 200, contentType = None, readableStream = Some (Chunk [1, 2] Closed)\<rparr>"
      "Chunk [1, 2] Closed" "[1, 2]" "decodeAs (Metadata (Some 48) (Some 48))" 48 "Some 48"]
    checkIcon_square [of "''a.png''"
      "respond \<lparr>status = 200, contentType = None, readableStream = Some (Chunk [1, 2] Closed)\<rparr>"
      None "\<lparr>status = 200, contentType = None, readableStream = Some (Chunk [1, 2] Closed)\<rparr>"
      "Chunk [1, 2] Closed" "[1, 2]" "decodeAs (Metadata (Some 48) (Some 48))" 48 "Some 180"]
  by (simp add: respond_def decodeAs_def readableStreamToBuffer_concat)

text \<open>
  C1, as the specification has it, fails twice. An expected size of 0 was given and
  differs from the decoded 48, and no \<open>wrongSize\<close> follows \<open>square(48)\<close>; a decoded
  size of 0 by 0 gives no \<open>square\<close> at all.
\<close>

theorem checkIcon_square_counterexample:
  "events (snd (checkIcon (Some ''a.png'')
       (respond \<lparr>status = 200, contentType = None, readableStream = Some (Chunk [1, 2] Closed)\<rparr>)
       (decodeAs (Metadata (Some 48) (Some 48))) None (Some 0)))
     = [downloadable, square 48]
   \<and> events (snd (checkIcon (Some ''a.png'')
       (respond \<lparr>status = 200, contentType = None, readableStream = Some (Chunk [1, 2] Closed)\<rparr>)
       (decodeAs (Metadata (Some 0) (Some 0))) None None))
     = [downloadable]"
  by (simp add: checkIcon_def respond_def decodeAs_def
      readableStreamToBuffer_concat sizeEvents_def emit_def fetched_def)

text \<open>
  C2, as the code has it. On a fetch with a status below 300 and a byte stream whose
  decoded width and height differ, \<open>checkIcon\<close> calls \<open>downloadable\<close>, then
  \<open>notSquare(width, height)\<close> when neither of the two is 0, and nothing else: when one
  of the two is 0, \<open>downloadable\<close> is the only call. It calls none of \<open>square\<close>,
  \<open>rightSize\<close> and \<open>wrongSize\<close>, whatever the two are.
\<close>

theorem checkIcon_notSquare:
  assumes "iconUrl \<noteq> []"
    and "fetcher iconUrl mimeType = Inr res"
    and "status res \<noteq> 404" and "status res < 300"
    and "readableStream res = Some stream"
    and "readableStreamToBuffer stream = Inr rawContent"
    and "metadata rawContent = Inr (Metadata (Some w) (Some h))"
    and "w \<noteq> h"
  shows "events (snd (checkIcon (Some iconUrl) fetcher metadata mimeType expectedWidthHeight))
           = downloadable # (if w = 0 \<or> h = 0 then [] else [notSquare w h])
         \<and> (\<forall>k. square k \<notin> set (events (snd (checkIcon (Some iconUrl) fetcher metadata mimeType expectedWidthHeight)))
               \<and> rightSize k \<notin> set (events (snd (checkIcon (Some iconUrl) fetcher metadata mimeType expectedWidthHeight)))
               \<and> wrongSize k \<notin> set (events (snd (checkIcon (Some iconUrl) fetcher metadata mimeType expectedWidthHeight))))"
  using assms by (simp add: checkIcon_decoded events_sizeEvents_notSquare)

theorem checkIcon_notSquare_witness:
  "events (snd (checkIcon (Some ''a.png'')
       (respond \<lparr>status = 200, contentType = None, readableStream = Some (Chunk [1, 2] Closed)\<rparr>)
       (decodeAs (Metadata (Some 32) (Some 16))) None None))
     = [downloadable, notSquare 32 16]
   \<and> events (snd (checkIcon (Some ''a.png'')
       (respond \<lparr>status = 200, contentType = None, readableStream = Some (Chunk [1, 2] Closed)\<rparr>)
       (decodeAs (Metadata (Some 32) (Some 0))) None (Some 32)))
     = [downloadable]"
  using
    checkIcon_notSquare [of "''a.png''"
      "respond \<lparr>status = 200, contentType = None, readableStream = Some (Chunk [1, 2] Closed)\<rparr>"
      None "\<lparr>status = 200, contentType = None, readableStream = Some (Chunk [1, 2] Closed)\<rparr>"
      "Chunk [1, 2] Closed" "[1, 2]" "decodeAs (Metadata (Some 32) (Some 16))" 32 16 None]
    checkIcon_notSquare [of "''a.png''"
      "respond \<lparr>status = 200, contentType = None, readableStream = Some (Chunk [1, 2] Closed)\<rparr>"
      None "\<lparr>status = 200, contentType = None, readableStream = Some (Chunk [1, 2] Closed)\<rparr>"
      "Chunk [1, 2] Closed" "[1, 2]" "decodeAs (Metadata (Some 32) (Some 0))" 32 0 "Some 32"]
  by (simp add: respond_def decodeAs_def readableStreamToBuffer_concat)

text \<open>
  C2, as the specification has it, fails where one of the two is 0: a decoded width of
  0 and height of 16 differ, and \<open>downloadable\<close> is the only call.
\<close>

theorem checkIcon_notSquare_counterexample:
  "events (snd (checkIcon (Some ''a.png'')
       (respond \<lparr>status = 200, contentType = None, readableStream = Some (Chunk [1, 2] Closed)\<rparr>)
       (decodeAs (Metadata (Some 0) (Some 16))) None None))
     = [downloadable]"
  by (simp add: checkIcon_def respond_def decodeAs_def
      readableStreamToBuffer_concat sizeEvents_def emit_def fetched_def)

text \<open>
  C3. When the fetch settles with status 404, \<open>checkIcon\<close> calls \<open>icon404\<close> and
  nothing else on the processor, with or without a byte stream; when it settles with a
  status of at least 300 other than 404, \<open>checkIcon\<close> calls \<open>cannotGet\<close> with that
  status and nothing else.
\<close>

theorem checkIcon_status:
  assumes "iconUrl \<noteq> []"
    and "fetcher iconUrl mimeType = Inr res"
  shows "(status res = 404 \<longrightarrow>
            events (snd (checkIcon (Some iconUrl) fetcher metadata mimeType expectedWidthHeight))
              = [icon404])
         \<and> (300 \<le> status res \<and> status res \<noteq> 404 \<longrightarrow>
            events (snd (checkIcon (Some iconUrl) fetcher metadata mimeType expectedWidthHeight))
              = [cannotGet (status res)])"
  using assms by (simp add: checkIcon_def emit_def fetched_def)

theorem checkIcon_status_witness:
  "events (snd (checkIcon (Some ''a.png'')
       (respond \<lparr>status = 404, contentType = None, readableStream = Some (Chunk [1, 2] Closed)\<rparr>)
       (decodeAs (Metadata (Some 48) (Some 48))) None (Some 48)))
     = [icon404]
   \<and> events (snd (checkIcon (Some ''a.png'')
       (respond \<lparr>status = 503, contentType = None, readableStream = None\<rparr>)
       (decodeAs (Metadata (Some 48) (Some 48))) None (Some 48)))
     = [cannotGet 503]"
  using
    checkIcon_status [of "''a.png''"
      "respond \<lparr>status = 404, contentType = None, readableStream = Some (Chunk [1, 2] Closed)\<rparr>"
      None "\<lparr>status = 404, contentType = None, readableStream = Some (Chunk [1, 2] Closed)\<rparr>"
      "decodeAs (Metadata (Some 48) (Some 48))" "Some 48"]
    checkIcon_status [of "''a.png''"
      "respond \<lparr>status = 503, contentType = None, readableStream = None\<rparr>"
      None "\<lparr>status = 503, contentType = None, readableStream = None\<rparr>"
      "decodeAs (Metadata (Some 48) (Some 48))" "Some 48"]
  by (simp add: respond_def)

text \<open>
  C6. When the fetch settles with a status from 200 to 299 and no byte stream,
  \<open>checkIcon\<close> returns the output with the URL and null content, width and height,
  and calls nothing on the processor.
\<close>

theorem checkIcon_noBody:
  assumes "iconUrl \<noteq> []"
    and "fetcher iconUrl mimeType = Inr res"
    and "200 \<le> status res" and "status res < 300"
    and "readableStream res = None"
  shows "fst (checkIcon (Some iconUrl) fetcher metadata mimeType expectedWidthHeight)
           = Inr (Some \<lparr>content = None, url = Some iconUrl, width = None, height = None\<rparr>)
         \<and> events (snd (checkIcon (Some iconUrl) fetcher metadata mimeType expectedWidthHeight)) = []"
  using assms by (simp add: checkIcon_def fetched_def noContent_def)

theorem checkIcon_noBody_witness:
  "fst (checkIcon (Some ''a.png'')
       (respond \<lparr>status = 204, contentType = Some ''image/png'', readableStream = None\<rparr>)
       (decodeAs (Metadata (Some 48) (Some 48))) None (Some 48))
     = Inr (Some \<lparr>content = None, url = Some ''a.png'', width = None, height = None\<rparr>)
   \<and> events (snd (checkIcon (Some ''a.png'')
       (respond \<lparr>status = 204, contentType = Some ''image/png'', readableStream = None\<rparr>)
       (decodeAs (Metadata (Some 48) (Some 48))) None (Some 48)))
     = []"
  using
    checkIcon_noBody [of "''a.png''"
      "respond \<lparr>status = 204, contentType = Some ''image/png'', readableStream = None\<rparr>"
      None "\<lparr>status = 204, contentType = Some ''image/png'', readableStream = None\<rparr>"
      "decodeAs (Metadata (Some 48) (Some 48))" "Some 48"]
  by (simp add: respond_def)

text \<open>
  C5, as the code has it. On a fetch with a status below 300 and a byte stream that is
  read and decoded without failure, the \<open>content\<close> of the returned output is
  \<open>data:\<close>, then \<open>T\<close>, then \<open>;base64,\<close>, then the base64 text of the chunks of the
  body in the order of their arrival, where \<open>T\<close> is the \<open>contentType\<close> of the
  response when that is neither null nor the empty string, and otherwise what
  \<open>pathToMimeType\<close> gives for \<open>iconUrl\<close>: the type of its extension, or
  \<open>application/octet-stream\<close> (lemma \<open>pathToMimeType_extension\<close>).
\<close>

theorem checkIcon_content:
  assumes "iconUrl \<noteq> []"
    and "fetcher iconUrl mimeType = Inr res"
    and "status res \<noteq> 404" and "status res < 300"
    and "readableStream res = Some stream"
    and "readableStreamToBuffer stream = Inr rawContent"
    and "metadata rawContent = Inr meta"
  shows "\<exists>out. fst (checkIcon (Some iconUrl) fetcher metadata mimeType expectedWidthHeight)
                 = Inr (Some out)
           \<and> content out
                 = Some (''data:''
                     @ (case contentType res of
                          None \<Rightarrow> pathToMimeType iconUrl
                        | Some T \<Rightarrow> if T = [] then pathToMimeType iconUrl else T)
                     @ '';base64,'' @ base64 (concat (streamChunks stream)))"
proof -
  from assms(6) have "rawContent = concat (streamChunks stream)"
    by (simp add: readableStreamToBuffer_concat split: if_splits)
  with assms show ?thesis
    by (simp add: checkIcon_decoded bufferToDataUrl_def orString_def)
qed

theorem checkIcon_content_witness:
  "(\<exists>out. fst (checkIcon (Some ''a.ico'')
       (respond \<lparr>status = 200, contentType = Some ''image/png'',
                 readableStream = Some (Chunk [77] (Chunk [97, 110] Closed))\<rparr>)
       (decodeAs (Metadata (Some 48) (Some 48))) None None) = Inr (Some out)
     \<and> content out = Some ''data:image/png;base64,TWFu'')
   \<and> (\<exists>out. fst (checkIcon (Some ''a.ico'')
       (respond \<lparr>status = 200, contentType = None,
                 readableStream = Some (Chunk [77] (Chunk [97, 110] Closed))\<rparr>)
       (decodeAs (Metadata (Some 48) (Some 48))) None None) = Inr (Some out)
     \<and> content out = Some ''data:image/x-icon;base64,TWFu'')"
  using
    checkIcon_content [of "''a.ico''"
      "respond \<lparr>status = 200, contentType = Some ''image/png'',
                 readableStream = Some (Chunk [77] (Chunk [97, 110] Closed))\<rparr>"
      None "\<lparr>status = 200, contentType = Some ''image/png'',
                 readableStream = Some (Chunk [77] (Chunk [97, 110] Closed))\<rparr>"
      "Chunk [77] (Chunk [97, 110] Closed)" "[77, 97, 110]"
      "decodeAs (Metadata (Some 48) (Some 48))" "Metadata (Some 48) (Some 48)" None]
    checkIcon_content [of "''a.ico''"
      "respond \<lparr>status = 200, contentType = None,
                 readableStream = Some (Chunk [77] (Chunk [97, 110] Closed))\<rparr>"
      None "\<lparr>status = 200, contentType = None,
                 readableStream = Some (Chunk [77] (Chunk [97, 110] Closed))\<rparr>"
      "Chunk [77] (Chunk [97, 110] Closed)" "[77, 97, 110]"
      "decodeAs (Metadata (Some 48) (Some 48))" "Metadata (Some 48) (Some 48)" None]
  by (simp add: respond_def decodeAs_def readableStreamToBuffer_concat pathToMimeType_def
      pop_def base64Digit_def base64Alphabet_def)

text \<open>
  C5, as the specification has it, fails on a response whose \<open>contentType\<close> is present
  and empty: the data URL carries the type of the extension, not the declared one.
\<close>

theorem checkIcon_content_counterexample:
  "fst (checkIcon (Some ''a.ico'')
       (respond \<lparr>status = 200, contentType = Some '''',
                 readableStream = Some (Chunk [77] (Chunk [97, 110] Closed))\<rparr>)
       (decodeAs (Metadata (Some 48) (Some 48))) None None)
     = Inr (Some \<lparr>content = Some ''data:image/x-icon;base64,TWFu'', url = Some ''a.ico'',
                   width = Some 48, height = Some 48\<rparr>)"
  by (simp add: checkIcon_def respond_def decodeAs_def
      readableStreamToBuffer_concat bufferToDataUrl_def orString_def orNull_def
      pathToMimeType_def pop_def base64Digit_def base64Alphabet_def)

text \<open>
  C10. \<open>checkIcon\<close> returns null exactly when \<open>iconUrl\<close> is undefined or the empty
  string. For every other \<open>iconUrl\<close>, when the fetch settles and the body, if there is
  one, can be read and decoded, \<open>checkIcon\<close> returns an output that carries the URL;
  when the fetch settles with status 404 or with a status of at least 300, that output
  has null \<open>content\<close>, \<open>width\<close> and \<open>height\<close>.
\<close>

theorem checkIcon_null_only_noHref:
  "(fst (checkIcon iconUrl fetcher metadata mimeType expectedWidthHeight) = Inr None
      \<longleftrightarrow> iconUrl = None \<or> iconUrl = Some '''')
   \<and> (\<forall>u res. iconUrl = Some u \<and> u \<noteq> [] \<and> fetcher u mimeType = Inr res
          \<and> (\<forall>stream. readableStream res = Some stream \<longrightarrow>
                (\<exists>rawContent meta. readableStreamToBuffer stream = Inr rawContent
                   \<and> metadata rawContent = Inr meta)) \<longrightarrow>
         (\<exists>out. fst (checkIcon iconUrl fetcher metadata mimeType expectedWidthHeight)
                   = Inr (Some out) \<and> url out = Some u))
   \<and> (\<forall>u res. iconUrl = Some u \<and> u \<noteq> [] \<and> fetcher u mimeType = Inr res
                \<and> (status res = 404 \<or> 300 \<le> status res) \<longrightarrow>
         fst (checkIcon iconUrl fetcher metadata mimeType expectedWidthHeight)
           = Inr (Some \<lparr>content = None, url = Some u, width = None, height = None\<rparr>))"
  by (auto simp: checkIcon_def noContent_def Let_def split: option.splits sum.splits)

theorem checkIcon_null_only_noHref_witness:
  "fst (checkIcon (Some ''a.png'')
       (respond \<lparr>status = 404, contentType = None, readableStream = None\<rparr>)
       (decodeAs (Metadata (Some 48) (Some 48))) None None)
     = Inr (Some \<lparr>content = None, url = Some ''a.png'', width = None, height = None\<rparr>)
   \<and> (\<exists>out. fst (checkIcon (Some ''a.png'')
       (respond \<lparr>status = 200, contentType = None, readableStream = Some (Chunk [1, 2] Closed)\<rparr>)
       (decodeAs (Metadata (Some 48) (Some 48))) None None) = Inr (Some out)
         \<and> url out = Some ''a.png'')"
  using
    checkIcon_null_only_noHref [of "Some ''a.png''"
      "respond \<lparr>status = 404, contentType = None, readableStream = None\<rparr>"
      "decodeAs (Metadata (Some 48) (Some 48))" None None]
    checkIcon_null_only_noHref [of "Some ''a.png''"
      "respond \<lparr>status = 200, contentType = None, readableStream = Some (Chunk [1, 2] Closed)\<rparr>"
      "decodeAs (Metadata (Some 48) (Some 48))" None None]
  by (simp add: respond_def decodeAs_def readableStreamToBuffer_concat)

text \<open>
  C4. When \<open>iconUrl\<close> is undefined or the empty string, \<open>checkIcon\<close> calls exactly
  \<open>noHref\<close> on the processor, returns null, and does not call the fetcher.
\<close>

theorem checkIcon_noHref:
  "checkIcon None fetcher metadata mimeType expectedWidthHeight
     = (Inr None, \<lparr>events = [noHref], fetchCalls = []\<rparr>)
   \<and> checkIcon (Some '''') fetcher metadata mimeType expectedWidthHeight
     = (Inr None, \<lparr>events = [noHref], fetchCalls = []\<rparr>)"
  by (simp add: checkIcon_def emit_def)

section \<open>Properties of mergeUrlAndPath\<close>

lemma startsWith_iff: "startsWith s p \<longleftrightarrow> (\<exists>t. s = p @ t)"
  by (induction s p rule: startsWith.induct) auto

lemma endsWith_slash: "endsWith s ''/'' \<longleftrightarrow> s \<noteq> [] \<and> last s = CHR ''/''"
  by (cases s rule: rev_cases) (simp_all add: endsWith_def)

lemmas url_eval = newURL_plain_def toLower_def plainHost_def isAlpha_def plainPathChar_def isAlnum_def
  noDotSegments_def Let_def

text \<open>
  C7, as the code has it. A reference that starts with \<open>http://\<close> or \<open>https://\<close> is
  returned unchanged, whatever the base, parsable or not. For a base that the \<open>URL\<close>
  constructor parses to \<open>u\<close>: a reference that starts with \<open>//\<close> is returned behind
  the \<open>protocol\<close> of \<open>u\<close> (its scheme and a colon); any other reference that starts
  with \<open>/\<close> is returned behind the \<open>origin\<close> of \<open>u\<close>; every other reference is
  returned behind the \<open>href\<close> of \<open>u\<close>, the base as the constructor serialises it,
  with a \<open>/\<close> between the two when the \<open>href\<close> does not end in one. Nothing resolves
  \<open>..\<close> segments of the reference.
\<close>

theorem mergeUrlAndPath_rules:
  "mergeUrlAndPath newURL baseUrl (''http://'' @ rest) = Inr (''http://'' @ rest)
   \<and> mergeUrlAndPath newURL baseUrl (''https://'' @ rest) = Inr (''https://'' @ rest)
   \<and> (newURL baseUrl = Some u \<longrightarrow>
        mergeUrlAndPath newURL baseUrl (''//'' @ rest) = Inr (protocol u @ ''//'' @ rest)
        \<and> (\<not> startsWith rest ''/'' \<longrightarrow>
             mergeUrlAndPath newURL baseUrl (''/'' @ rest) = Inr (origin u @ ''/'' @ rest))
        \<and> (\<not> startsWith rest ''/'' \<and> \<not> startsWith rest ''http://''
             \<and> \<not> startsWith rest ''https://'' \<longrightarrow>
             mergeUrlAndPath newURL baseUrl rest
               = Inr ((if href u \<noteq> [] \<and> last (href u) = CHR ''/'' then href u
                       else href u @ ''/'') @ rest)))"
  by (cases rest) (auto simp: mergeUrlAndPath_def endsWith_slash)

theorem mergeUrlAndPath_rules_witness:
  "mergeUrlAndPath newURL_plain ''https://example.com/blog'' ''//cdn.example.com/icon.png''
     = Inr ''https://cdn.example.com/icon.png''
   \<and> mergeUrlAndPath newURL_plain ''https://example.com/blog'' ''/icon.png''
     = Inr ''https://example.com/icon.png''
   \<and> mergeUrlAndPath newURL_plain ''https://example.com/blog'' ''../icon.png''
     = Inr ''https://example.com/blog/../icon.png''"
proof -
  have u: "newURL_plain ''https://example.com/blog''
             = Some \<lparr>protocol = ''https:'', origin = ''https://example.com'',
                      href = ''https://example.com/blog''\<rparr>"
    by (simp add: url_eval)
  show ?thesis
    using
      mergeUrlAndPath_rules [of newURL_plain "''https://example.com/blog''"
        "''cdn.example.com/icon.png''"
        "\<lparr>protocol = ''https:'', origin = ''https://example.com'',
          href = ''https://example.com/blog''\<rparr>"]
      mergeUrlAndPath_rules [of newURL_plain "''https://example.com/blog''" "''icon.png''"
        "\<lparr>protocol = ''https:'', origin = ''https://example.com'',
          href = ''https://example.com/blog''\<rparr>"]
      mergeUrlAndPath_rules [of newURL_plain "''https://example.com/blog''" "''../icon.png''"
        "\<lparr>protocol = ''https:'', origin = ''https://example.com'',
          href = ''https://example.com/blog''\<rparr>"]
    by (simp add: u)
qed

text \<open>
  C7, as the specification has it, says that the relative case returns \<open>baseUrl\<close>
  itself with at most a \<open>/\<close> added. The code returns the serialised URL: for a base
  with capital letters in its scheme and host, they come back in lower case.
\<close>

theorem mergeUrlAndPath_rules_counterexample:
  "mergeUrlAndPath newURL_plain ''HTTPS://Example.COM/blog'' ''icon.png''
     = Inr ''https://example.com/blog/icon.png''"
  by (simp add: mergeUrlAndPath_def endsWith_def url_eval)

text \<open>
  C8, as the code has it. When the \<open>URL\<close> constructor rejects \<open>baseUrl\<close> and the
  reference starts with neither \<open>http://\<close> nor \<open>https://\<close>, \<open>mergeUrlAndPath\<close> fails
  with the invalid-URL error; a reference with one of these two prefixes is returned
  before \<open>baseUrl\<close> is parsed. For a base that the constructor accepts, every reference
  gives a result: nothing checks the reference but the prefix tests.
\<close>

theorem mergeUrlAndPath_InvalidURL:
  "(newURL baseUrl = None \<and> \<not> startsWith reference ''http://''
      \<and> \<not> startsWith reference ''https://'' \<longrightarrow>
        mergeUrlAndPath newURL baseUrl reference = Inl InvalidURL)
   \<and> (startsWith reference ''http://'' \<or> startsWith reference ''https://'' \<longrightarrow>
        mergeUrlAndPath newURL baseUrl reference = Inr reference)
   \<and> (newURL baseUrl \<noteq> None \<longrightarrow> (\<exists>merged. mergeUrlAndPath newURL baseUrl reference = Inr merged))"
  by (auto simp: mergeUrlAndPath_def)

theorem mergeUrlAndPath_InvalidURL_witness:
  "mergeUrlAndPath newURL_plain ''not a url'' ''/icon.png'' = Inl InvalidURL"
proof -
  have "newURL_plain ''not a url'' = None"
    by (simp add: url_eval)
  then show ?thesis
    using mergeUrlAndPath_InvalidURL [of newURL_plain "''not a url''" "''/icon.png''"]
    by simp
qed

text \<open>
  C8, as the specification has it, fails for an absolute reference: the base is not a
  URL, and the reference is returned.
\<close>

theorem mergeUrlAndPath_InvalidURL_counterexample:
  "newURL_plain ''not a url'' = None
   \<and> mergeUrlAndPath newURL_plain ''not a url'' ''https://example.com/icon.png''
       = Inr ''https://example.com/icon.png''"
  by (simp add: mergeUrlAndPath_def url_eval)

section \<open>Properties of parseSizesAttribute\<close>

text \<open>
  \<open>regexMatch\<close> against the words of the specification: the match at the start of a
  string is the occurrence at position 0, and the match in a string is its first
  occurrence.
\<close>

lemma takeWhile_dropWhile_Nil: "takeWhile P (dropWhile P xs) = []"
  by (induction xs) auto

lemma x_not_digit: "\<not> isDigit CHR ''x''"
  by (simp add: isDigit_def)

lemma matchHere_occursAt: "matchHere s = Some (a, b) \<longleftrightarrow> occursAt s 0 a b"
proof
  assume m: "matchHere s = Some (a, b)"
  then obtain afterX where a: "a = takeWhile isDigit s" "a \<noteq> []"
      and d: "dropWhile isDigit s = CHR ''x'' # afterX"
      and b: "b = takeWhile isDigit afterX" "b \<noteq> []"
    by (auto simp: matchHere_def Let_def split: list.splits if_splits)
  have s: "s = a @ CHR ''x'' # b @ dropWhile isDigit afterX"
    using takeWhile_dropWhile_id [of isDigit s] takeWhile_dropWhile_id [of isDigit afterX] a d b
    by simp
  have "drop (length a + 1 + length b) s = dropWhile isDigit afterX"
    by (subst s) simp
  moreover have "takeWhile isDigit (dropWhile isDigit afterX) = []"
    by (rule takeWhile_dropWhile_Nil)
  moreover have "list_all isDigit a" "list_all isDigit b"
    using a b by (auto simp: list_all_iff dest: set_takeWhileD)
  moreover have "startsWith s (a @ ''x'' @ b)"
    by (subst s) (simp add: startsWith_iff)
  ultimately show "occursAt s 0 a b"
    using a b by (simp add: occursAt_def)
next
  assume o: "occursAt s 0 a b"
  then obtain t where s: "s = a @ CHR ''x'' # b @ t"
    by (auto simp: occursAt_def startsWith_iff)
  from o have ab: "a \<noteq> []" "b \<noteq> []" "\<forall>c\<in>set a. isDigit c" "\<forall>c\<in>set b. isDigit c"
    by (auto simp: occursAt_def list_all_iff)
  from o s have t: "takeWhile isDigit t = []"
    by (simp add: occursAt_def)
  have 1: "takeWhile isDigit s = a"
    using ab x_not_digit by (simp add: s takeWhile_tail)
  have 2: "dropWhile isDigit s = CHR ''x'' # b @ t"
    using ab x_not_digit by (simp add: s dropWhile_append3)
  have 3: "takeWhile isDigit (b @ t) = b"
    using ab t by (simp add: takeWhile_append2)
  show "matchHere s = Some (a, b)"
    using ab by (simp add: matchHere_def 1 2 3)
qed

lemma matchHere_None: "matchHere s = None \<longleftrightarrow> (\<forall>a b. \<not> occursAt s 0 a b)"
  using matchHere_occursAt [of s] by (cases "matchHere s") auto

lemma occursAt_Cons: "occursAt (c # cs) (Suc i) a b = occursAt cs i a b"
  by (simp add: occursAt_def)

lemma occursAt_Nil: "\<not> occursAt [] i a b"
  by (cases a) (simp_all add: occursAt_def)

lemma regexMatch_None: "regexMatch s = None \<longleftrightarrow> (\<forall>i a b. \<not> occursAt s i a b)"
proof (induction s)
  case Nil
  then show ?case by (simp add: occursAt_Nil)
next
  case (Cons c cs)
  show ?case
  proof (cases "matchHere (c # cs)")
    case None
    have "(\<forall>i a b. \<not> occursAt (c # cs) i a b) \<longleftrightarrow> (\<forall>i a b. \<not> occursAt cs i a b)"
    proof
      assume h: "\<forall>i a b. \<not> occursAt (c # cs) i a b"
      show "\<forall>i a b. \<not> occursAt cs i a b"
        using h occursAt_Cons by blast
    next
      assume h: "\<forall>i a b. \<not> occursAt cs i a b"
      show "\<forall>i a b. \<not> occursAt (c # cs) i a b"
      proof (intro allI)
        fix i a b
        show "\<not> occursAt (c # cs) i a b"
          using h None by (cases i) (simp_all add: matchHere_None occursAt_Cons)
      qed
    qed
    with None Cons.IH show ?thesis by simp
  next
    case (Some m)
    then show ?thesis
      using matchHere_occursAt [of "c # cs" "fst m" "snd m"] by auto
  qed
qed

lemma regexMatch_first:
  "regexMatch s = Some (a, b)
     \<longleftrightarrow> (\<exists>i. occursAt s i a b \<and> (\<forall>j<i. \<forall>a' b'. \<not> occursAt s j a' b'))"
proof (induction s)
  case Nil
  then show ?case by (simp add: occursAt_Nil)
next
  case (Cons c cs)
  show ?case
  proof (cases "matchHere (c # cs)")
    case None
    have "(\<exists>i. occursAt (c # cs) i a b \<and> (\<forall>j<i. \<forall>a' b'. \<not> occursAt (c # cs) j a' b'))
      \<longleftrightarrow> (\<exists>i. occursAt cs i a b \<and> (\<forall>j<i. \<forall>a' b'. \<not> occursAt cs j a' b'))"
      (is "?L \<longleftrightarrow> ?R")
    proof
      assume ?L
      then obtain i where i: "occursAt (c # cs) i a b"
        "\<forall>j<i. \<forall>a' b'. \<not> occursAt (c # cs) j a' b'" by blast
      from i(1) None obtain k where k: "i = Suc k"
        by (cases i) (auto simp: matchHere_None)
      have "occursAt cs k a b" using i(1) k by (simp add: occursAt_Cons)
      moreover have "\<forall>j<k. \<forall>a' b'. \<not> occursAt cs j a' b'"
      proof (intro allI impI)
        fix j a' b' assume "j < k"
        then have "Suc j < i" using k by simp
        with i(2) have "\<not> occursAt (c # cs) (Suc j) a' b'" by blast
        then show "\<not> occursAt cs j a' b'" by (simp add: occursAt_Cons)
      qed
      ultimately show ?R by blast
    next
      assume ?R
      then obtain k where k: "occursAt cs k a b" "\<forall>j<k. \<forall>a' b'. \<not> occursAt cs j a' b'"
        by blast
      have "occursAt (c # cs) (Suc k) a b" using k(1) by (simp add: occursAt_Cons)
      moreover have "\<forall>j<Suc k. \<forall>a' b'. \<not> occursAt (c # cs) j a' b'"
      proof (intro allI impI)
        fix j a' b' assume j: "j < Suc k"
        show "\<not> occursAt (c # cs) j a' b'"
        proof (cases j)
          case 0
          with None show ?thesis by (simp add: matchHere_None)
        next
          case (Suc j')
          with j k(2) show ?thesis by (simp add: occursAt_Cons)
        qed
      qed
      ultimately show ?L by blast
    qed
    with None Cons.IH show ?thesis by simp
  next
    case (Some m)
    obtain a0 b0 where m: "m = (a0, b0)" by (cases m)
    with Some have o: "occursAt (c # cs) 0 a0 b0" by (simp add: matchHere_occursAt)
    show ?thesis
    proof
      assume "regexMatch (c # cs) = Some (a, b)"
      with Some m have "a0 = a" "b0 = b" by simp_all
      with o have "occursAt (c # cs) 0 a b" by simp
      then show "\<exists>i. occursAt (c # cs) i a b \<and> (\<forall>j<i. \<forall>a' b'. \<not> occursAt (c # cs) j a' b')"
        by (intro exI [of _ 0]) simp
    next
      assume "\<exists>i. occursAt (c # cs) i a b \<and> (\<forall>j<i. \<forall>a' b'. \<not> occursAt (c # cs) j a' b')"
      then obtain i where i: "occursAt (c # cs) i a b"
        "\<forall>j<i. \<forall>a' b'. \<not> occursAt (c # cs) j a' b'" by blast
      have "i = 0"
      proof (rule ccontr)
        assume "i \<noteq> 0"
        then have "0 < i" by simp
        with i(2) o show False by blast
      qed
      with i(1) have "matchHere (c # cs) = Some (a, b)" by (simp add: matchHere_occursAt)
      then show "regexMatch (c # cs) = Some (a, b)" by simp
    qed
  qed
qed


lemma occursAt_drop: "occursAt s j a b = occursAt (drop j s) 0 a b"
  by (simp add: occursAt_def add.commute add.left_commute)

lemma no_occurrence_before:
  "(\<forall>j<i. matchHere (drop j s) = None) \<Longrightarrow> \<forall>j<i. \<forall>a b. \<not> occursAt s j a b"
  using occursAt_drop matchHere_None by blast

lemma excessBits_small: "n < 2 ^ 53 \<Longrightarrow> excessBits n = 0"
  by (simp add: excessBits.simps)

lemma toDouble_exact: "n < 2 ^ 53 \<Longrightarrow> toDouble n = Number n"
  by (simp add: toDouble_def excessBits_small)

lemma parseInt_digits: "list_all isDigit ds \<Longrightarrow> parseInt ds = toDouble (decimal ds)"
proof -
  assume "list_all isDigit ds"
  then have run: "takeWhile isDigit ds = ds"
    by (simp add: list_all_iff takeWhile_eq_all_conv)
  show ?thesis
    by (simp only: parseInt_def run)
qed

text \<open>
  C9, as the code has it. \<open>parseSizesAttribute\<close> returns null for null and undefined.
  For a string it looks at the first occurrence of \<open><digits>x<digits>\<close> only: with no
  occurrence it returns null; when the two groups of the first occurrence differ as
  strings of digits it returns null; when they are the same string it returns the number
  they denote as \<open>parseInt\<close> gives it, a double: the integer itself when that is below
  \<open>2^53\<close>, the nearest double above that, and \<open>Infinity\<close> beyond the doubles. So
  \<open>16x16\<close> gives 16, \<open>16x32\<close> gives null, and \<open>foo 32x32 bar\<close> gives 32.
\<close>

theorem parseSizesAttribute_first_match:
  "parseSizesAttribute None = None
   \<and> ((\<forall>i a b. \<not> occursAt s i a b) \<longrightarrow> parseSizesAttribute (Some s) = None)
   \<and> (occursAt s i a b \<and> (\<forall>j<i. \<forall>a' b'. \<not> occursAt s j a' b') \<longrightarrow>
        parseSizesAttribute (Some s) = (if a = b then Some (toDouble (decimal a)) else None))
   \<and> (occursAt s i a b \<and> (\<forall>j<i. \<forall>a' b'. \<not> occursAt s j a' b') \<and> a = b
        \<and> decimal a < 2 ^ 53 \<longrightarrow>
        parseSizesAttribute (Some s) = Some (Number (decimal a)))
   \<and> parseSizesAttribute (Some ''16x16'') = Some (Number 16)
   \<and> parseSizesAttribute (Some ''16x32'') = None
   \<and> parseSizesAttribute (Some ''foo 32x32 bar'') = Some (Number 32)"
proof -
  have general: "parseSizesAttribute (Some s) = (if a = b then Some (toDouble (decimal a)) else None)"
    if h: "occursAt s i a b \<and> (\<forall>j<i. \<forall>a' b'. \<not> occursAt s j a' b')"
  proof -
    from h have m: "regexMatch s = Some (a, b)"
      using regexMatch_first [of s a b] by blast
    from h have "s \<noteq> []"
      by (auto simp: occursAt_Nil)
    moreover from h have "parseInt a = toDouble (decimal a)"
      by (simp add: occursAt_def parseInt_digits)
    ultimately show ?thesis
      using m by (cases "a = b") (auto simp: parseSizesAttribute_def)
  qed
  have none: "parseSizesAttribute (Some s) = None" if "\<forall>i a b. \<not> occursAt s i a b"
  proof -
    from that have "regexMatch s = None"
      by (simp add: regexMatch_None)
    then show ?thesis
      by (simp add: parseSizesAttribute_def)
  qed
  have e1: "parseSizesAttribute (Some ''16x16'') = Some (Number 16)"
    by (simp add: parseSizesAttribute_def matchHere_def isDigit_def parseInt_def
        decimal_def digitValue_def toDouble_exact Let_def)
  have e2: "parseSizesAttribute (Some ''16x32'') = None"
    by (simp add: parseSizesAttribute_def matchHere_def isDigit_def Let_def)
  have e3: "parseSizesAttribute (Some ''foo 32x32 bar'') = Some (Number 32)"
    by (simp add: parseSizesAttribute_def matchHere_def isDigit_def parseInt_def
        decimal_def digitValue_def toDouble_exact Let_def)
  show ?thesis
    using general none e1 e2 e3
    by (auto simp: parseSizesAttribute_def toDouble_exact)
qed

theorem parseSizesAttribute_first_match_witness:
  "parseSizesAttribute (Some ''any 16x16 32x32'') = Some (Number 16)
   \<and> parseSizesAttribute (Some ''any 16x32 32x32'') = None
   \<and> parseSizesAttribute (Some ''16X16'') = None"
proof -
  have none: "\<forall>i a b. \<not> occursAt ''16X16'' i a b"
    using regexMatch_None [of "''16X16''"]
    by (simp add: matchHere_def isDigit_def Let_def)
  have o1: "occursAt ''any 16x16 32x32'' 4 ''16'' ''16''"
    by (simp add: occursAt_def isDigit_def)
  have o2: "occursAt ''any 16x32 32x32'' 4 ''16'' ''32''"
    by (simp add: occursAt_def isDigit_def)
  have f1: "\<forall>j<4. \<forall>a' b'. \<not> occursAt ''any 16x16 32x32'' j a' b'"
    by (rule no_occurrence_before)
      (simp add: All_less_Suc eval_nat_numeral matchHere_def isDigit_def Let_def)
  have f2: "\<forall>j<4. \<forall>a' b'. \<not> occursAt ''any 16x32 32x32'' j a' b'"
    by (rule no_occurrence_before)
      (simp add: All_less_Suc eval_nat_numeral matchHere_def isDigit_def Let_def)
  have p: "decimal ''16'' = 16"
    by (simp add: decimal_def digitValue_def)
  show ?thesis
    using
      parseSizesAttribute_first_match [of "''any 16x16 32x32''" 4 "''16''" "''16''"]
      parseSizesAttribute_first_match [of "''any 16x32 32x32''" 4 "''16''" "''32''"]
      parseSizesAttribute_first_match [of "''16X16''" 0 "''1''" "''1''"]
      none o1 o2 f1 f2 p
    by (simp add: toDouble_exact)
qed

text \<open>
  C9, as the specification has it, compares the two captured numbers and returns the
  parsed integer. The code compares the two captured strings: in \<open>016x16\<close> both groups
  denote 16, and the result is null. And the number it returns is a double: for two
  groups that denote \<open>2^53 + 1\<close> it returns \<open>2^53\<close>.
\<close>

theorem parseSizesAttribute_first_match_counterexample:
  "regexMatch ''016x16'' = Some (''016'', ''16'')
   \<and> decimal ''016'' = 16 \<and> decimal ''16'' = 16
   \<and> parseSizesAttribute (Some ''016x16'') = None
   \<and> decimal ''9007199254740993'' = 2 ^ 53 + 1
   \<and> parseSizesAttribute (Some ''9007199254740993x9007199254740993'') = Some (Number (2 ^ 53))"
  by code_simp

end
